theory Spec2Isabelle
  imports Complex_Main "HOL-Library.Multiset"
begin

section \<open>Numbers of the source language\<close>

text \<open>
  The program (\<^verbatim>\<open>src/weather_by_storm.py\<close>) computes with Python floats. A float is
  modelled as a real number, or one of the three values that are not numbers. Arithmetic
  on finite values is exact and unbounded: the rounding of a result, and the
  \<^verbatim>\<open>OverflowError\<close> or the infinity that a finite operation gives beyond the range of a
  double (\<^verbatim>\<open>10 ** x\<close> from about \<open>x = 308\<close> on), are not part of this model. The special
  values follow IEEE 754 as Python exposes it.
\<close>

datatype pyfloat = Finite real | PosInf | NegInf | NaN

datatype py_error = ValueError | TypeError | ZeroDivisionError | OverflowError | ComplexResult

text \<open>The comparisons \<^verbatim>\<open>a < b\<close> and \<^verbatim>\<open>a > b\<close>: every comparison with nan is false.\<close>

fun f_lt :: "pyfloat \<Rightarrow> pyfloat \<Rightarrow> bool" where
  "f_lt (Finite x) (Finite y) = (x < y)"
| "f_lt NaN _ = False"
| "f_lt _ NaN = False"
| "f_lt PosInf _ = False"
| "f_lt _ NegInf = False"
| "f_lt NegInf _ = True"
| "f_lt _ PosInf = True"

definition f_gt :: "pyfloat \<Rightarrow> pyfloat \<Rightarrow> bool" where
  "f_gt a b = f_lt b a"

text \<open>
  The builtins \<^verbatim>\<open>max(a, b)\<close> and \<^verbatim>\<open>min(a, b)\<close> keep the first argument unless
  the second is strictly greater (smaller).
\<close>

definition py_max :: "pyfloat \<Rightarrow> pyfloat \<Rightarrow> pyfloat" where
  "py_max a b = (if f_gt b a then b else a)"

definition py_min :: "pyfloat \<Rightarrow> pyfloat \<Rightarrow> pyfloat" where
  "py_min a b = (if f_lt b a then b else a)"

fun f_neg :: "pyfloat \<Rightarrow> pyfloat" where
  "f_neg (Finite x) = Finite (- x)"
| "f_neg PosInf = NegInf"
| "f_neg NegInf = PosInf"
| "f_neg NaN = NaN"

text \<open>The sign of an infinite product; zero times infinity is nan.\<close>

definition inf_of_sign :: "real \<Rightarrow> pyfloat" where
  "inf_of_sign s = (if s > 0 then PosInf else if s < 0 then NegInf else NaN)"

fun f_mul :: "pyfloat \<Rightarrow> pyfloat \<Rightarrow> pyfloat" where
  "f_mul (Finite x) (Finite y) = Finite (x * y)"
| "f_mul NaN _ = NaN"
| "f_mul _ NaN = NaN"
| "f_mul (Finite x) PosInf = inf_of_sign x"
| "f_mul (Finite x) NegInf = inf_of_sign (- x)"
| "f_mul PosInf (Finite y) = inf_of_sign y"
| "f_mul NegInf (Finite y) = inf_of_sign (- y)"
| "f_mul PosInf PosInf = PosInf"
| "f_mul NegInf NegInf = PosInf"
| "f_mul PosInf NegInf = NegInf"
| "f_mul NegInf PosInf = NegInf"

fun f_sub :: "pyfloat \<Rightarrow> pyfloat \<Rightarrow> pyfloat" where
  "f_sub (Finite x) (Finite y) = Finite (x - y)"
| "f_sub NaN _ = NaN"
| "f_sub _ NaN = NaN"
| "f_sub PosInf PosInf = NaN"
| "f_sub NegInf NegInf = NaN"
| "f_sub PosInf _ = PosInf"
| "f_sub NegInf _ = NegInf"
| "f_sub (Finite x) PosInf = NegInf"
| "f_sub (Finite x) NegInf = PosInf"

text \<open>Float division raises \<^verbatim>\<open>ZeroDivisionError\<close> on a zero divisor.\<close>

fun f_div :: "pyfloat \<Rightarrow> pyfloat \<Rightarrow> py_error + pyfloat" where
  "f_div a (Finite y) =
     (if y = 0 then Inl ZeroDivisionError
      else Inr (case a of Finite x \<Rightarrow> Finite (x / y)
                | PosInf \<Rightarrow> inf_of_sign y
                | NegInf \<Rightarrow> inf_of_sign (- y)
                | NaN \<Rightarrow> NaN))"
| "f_div a NaN = Inr NaN"
| "f_div (Finite x) _ = Inr (Finite 0)"
| "f_div NaN _ = Inr NaN"
| "f_div _ _ = Inr NaN"

text \<open>\<^verbatim>\<open>10 ** x\<close> for a float \<open>x\<close>.\<close>

fun f_pow10 :: "pyfloat \<Rightarrow> pyfloat" where
  "f_pow10 (Finite x) = Finite (10 powr x)"
| "f_pow10 PosInf = PosInf"
| "f_pow10 NegInf = Finite 0"
| "f_pow10 NaN = NaN"

text \<open>
  \<^verbatim>\<open>x ** 0.5\<close>: the root of a value that is not negative; a negative finite base gives
  a complex number in Python, which is an error value here.
\<close>

fun f_pow_half :: "pyfloat \<Rightarrow> py_error + pyfloat" where
  "f_pow_half (Finite x) = (if x < 0 then Inl ComplexResult else Inr (Finite (sqrt x)))"
| "f_pow_half PosInf = Inr PosInf"
| "f_pow_half NegInf = Inr PosInf"
| "f_pow_half NaN = Inr NaN"

text \<open>\<^verbatim>\<open>math.sqrt\<close>, \<^verbatim>\<open>math.radians\<close> and \<^verbatim>\<open>math.cos\<close>.\<close>

fun math_sqrt :: "pyfloat \<Rightarrow> py_error + pyfloat" where
  "math_sqrt (Finite x) = (if x < 0 then Inl ValueError else Inr (Finite (sqrt x)))"
| "math_sqrt PosInf = Inr PosInf"
| "math_sqrt NegInf = Inl ValueError"
| "math_sqrt NaN = Inr NaN"

definition radians :: "pyfloat \<Rightarrow> pyfloat" where
  "radians x = f_mul x (Finite (pi / 180))"

fun math_cos :: "pyfloat \<Rightarrow> py_error + pyfloat" where
  "math_cos (Finite x) = Inr (Finite (cos x))"
| "math_cos NaN = Inr NaN"
| "math_cos _ = Inl ValueError"

text \<open>Sequencing of a computation that may raise.\<close>

definition and_then :: "py_error + 'a \<Rightarrow> ('a \<Rightarrow> py_error + 'b) \<Rightarrow> py_error + 'b" where
  "and_then r f = (case r of Inl e \<Rightarrow> Inl e | Inr v \<Rightarrow> f v)"

section \<open>Earthquakes: the felt-area radius\<close>

text \<open>
  Lines 377 to 385 of \<^verbatim>\<open>build_map\<close>: the radius in kilometres before the clamp, from the
  magnitude \<open>M\<close> and the depth (\<open>None\<close> when the feature has no third coordinate or it
  does not parse).
\<close>

definition seismic_radius_unclamped :: "pyfloat \<Rightarrow> pyfloat option \<Rightarrow> py_error + pyfloat" where
  "seismic_radius_unclamped M depth_km =
     (let A = f_pow10 (f_sub (f_mul (Finite 1.02) M) (Finite 1.83)) in
      and_then (f_div A (Finite pi)) (\<lambda>q.
      and_then (f_pow_half q) (\<lambda>radius_km.
        Inr (case depth_km of
               None \<Rightarrow> radius_km
             | Some d \<Rightarrow>
                 if f_gt d (Finite 300) then f_mul radius_km (Finite 0.5)
                 else if f_gt d (Finite 70) then f_mul radius_km (Finite 0.7)
                 else radius_km))))"

text \<open>Line 387: the clamp \<^verbatim>\<open>max(2.0, min(300.0, radius_km))\<close>.\<close>

definition seismic_radius_km :: "pyfloat \<Rightarrow> pyfloat option \<Rightarrow> py_error + pyfloat" where
  "seismic_radius_km M depth_km =
     and_then (seismic_radius_unclamped M depth_km) (\<lambda>radius_km.
       Inr (py_max (Finite 2) (py_min (Finite 300) radius_km)))"

section \<open>Wildfires: the sensor footprint radius\<close>

text \<open>
  Lines 416 to 428: the radius in metres of a detection row, from the parsed
  \<^verbatim>\<open>scan\<close>, \<^verbatim>\<open>track\<close> and \<^verbatim>\<open>latitude\<close> cells (\<open>None\<close> when a cell is missing or does
  not parse). \<^verbatim>\<open>math.cos\<close> raises on an infinite argument.
\<close>

definition fire_radius_m ::
  "pyfloat option \<Rightarrow> pyfloat option \<Rightarrow> pyfloat option \<Rightarrow> py_error + pyfloat" where
  "fire_radius_m scan_deg track_deg lat =
     (case (scan_deg, track_deg, lat) of
        (Some scan, Some track, Some la) \<Rightarrow>
          and_then (math_cos (radians la)) (\<lambda>c.
            let width_m = f_mul (f_mul scan (Finite 111320)) (py_max (Finite 0) c);
                height_m = f_mul track (Finite 111320)
            in and_then (f_div (py_max (Finite 1) (f_mul width_m height_m)) (Finite pi)) (\<lambda>q.
               and_then (math_sqrt q) (\<lambda>radius_m.
                 Inr (py_max (Finite 150) (py_min (Finite 2000) radius_m)))))
      | _ \<Rightarrow> Inr (Finite 500))"

text \<open>
  The formula as the specification words it: no floor under the cosine or under the
  product.
\<close>

definition spec_fire_radius_m :: "real \<Rightarrow> real \<Rightarrow> real \<Rightarrow> real" where
  "spec_fire_radius_m scan track la =
     max 150 (min 2000 (sqrt ((scan * 111320 * cos (la * pi / 180)) * (track * 111320) / pi)))"

section \<open>Dynamic values and strings\<close>

text \<open>
  The values a decoded JSON document or a CSV cell holds at the places the program reads:
  \<^verbatim>\<open>None\<close>, booleans, numbers (Python's \<^verbatim>\<open>int\<close> and \<^verbatim>\<open>float\<close>, both as \<open>PNum\<close>) and
  strings. Strings are strings of ASCII characters.
\<close>

datatype pyval = PNone | PBool bool | PNum pyfloat | PStr string

text \<open>Truth value of an operand of \<^verbatim>\<open>or\<close> and \<^verbatim>\<open>not\<close>; nan and the infinities are true.\<close>

fun truthy :: "pyval \<Rightarrow> bool" where
  "truthy PNone = False"
| "truthy (PBool b) = b"
| "truthy (PNum x) = (x \<noteq> Finite 0)"
| "truthy (PStr s) = (s \<noteq> [])"

definition py_or :: "pyval \<Rightarrow> pyval \<Rightarrow> pyval" where
  "py_or a b = (if truthy a then a else b)"

text \<open>A dictionary with string keys; \<^verbatim>\<open>d.get(k)\<close> is \<^verbatim>\<open>None\<close> for a missing key.\<close>

type_synonym pydict = "(string \<times> pyval) list"

definition dict_get :: "pydict \<Rightarrow> string \<Rightarrow> pyval" where
  "dict_get d k = (case map_of d k of None \<Rightarrow> PNone | Some v \<Rightarrow> v)"

text \<open>Characters: white space as \<^verbatim>\<open>str.strip\<close> and \<^verbatim>\<open>float\<close> see it, digits, upper case.\<close>

definition is_space :: "char \<Rightarrow> bool" where
  "is_space c = (let n = (of_char c :: nat) in (9 \<le> n \<and> n \<le> 13) \<or> (28 \<le> n \<and> n \<le> 32))"

definition is_digit :: "char \<Rightarrow> bool" where
  "is_digit c = (let n = (of_char c :: nat) in 48 \<le> n \<and> n \<le> 57)"

definition digit_val :: "char \<Rightarrow> nat" where
  "digit_val c = of_char c - 48"

definition to_upper :: "char \<Rightarrow> char" where
  "to_upper c = (let n = (of_char c :: nat) in if 97 \<le> n \<and> n \<le> 122 then char_of (n - 32) else c)"

definition upper :: "string \<Rightarrow> string" where
  "upper s = map to_upper s"

definition strip :: "string \<Rightarrow> string" where
  "strip s = rev (dropWhile is_space (rev (dropWhile is_space s)))"

definition endswith :: "string \<Rightarrow> string \<Rightarrow> bool" where
  "endswith s suffix = (length suffix \<le> length s \<and> drop (length s - length suffix) s = suffix)"

definition startswith :: "string \<Rightarrow> string \<Rightarrow> bool" where
  "startswith s p = (take (length p) s = p)"

text \<open>The substring test \<^verbatim>\<open>needle in s\<close>.\<close>

fun contains :: "string \<Rightarrow> string \<Rightarrow> bool" where
  "contains [] needle = (needle = [])"
| "contains (c # cs) needle = (startswith (c # cs) needle \<or> contains cs needle)"

section \<open>Text to number\<close>

text \<open>
  The longest prefix that is a \<^emph>\<open>digitpart\<close> of Python's grammar, digits with single
  underscores between them, returned without the underscores, and the rest.
\<close>

fun take_digits :: "string \<Rightarrow> string \<times> string" where
  "take_digits [] = ([], [])"
| "take_digits (c # cs) =
     (if \<not> is_digit c then ([], c # cs)
      else (case cs of
              u # d # rest \<Rightarrow>
                if u = CHR ''_'' \<and> is_digit d
                then (let (ds, r) = take_digits (d # rest) in (c # ds, r))
                else (let (ds, r) = take_digits cs in (c # ds, r))
            | _ \<Rightarrow> (let (ds, r) = take_digits cs in (c # ds, r))))"

definition digits_value :: "string \<Rightarrow> nat" where
  "digits_value ds = foldl (\<lambda>acc c. 10 * acc + digit_val c) 0 ds"

text \<open>An optional sign: whether it is a minus, and the rest.\<close>

fun take_sign :: "string \<Rightarrow> bool \<times> string" where
  "take_sign [] = (False, [])"
| "take_sign (c # cs) =
     (if c = CHR ''-'' then (True, cs) else if c = CHR ''+'' then (False, cs) else (False, c # cs))"

text \<open>
  The optional exponent of a float literal: \<open>Some 0\<close> for the empty rest, the signed
  exponent for \<^verbatim>\<open>e\<close> or \<^verbatim>\<open>E\<close>, an optional sign and a digitpart up to the end, and
  \<open>None\<close> for anything else.
\<close>

definition take_exponent :: "string \<Rightarrow> int option" where
  "take_exponent s =
     (case s of
        [] \<Rightarrow> Some 0
      | c # cs \<Rightarrow>
          if c = CHR ''e'' \<or> c = CHR ''E'' then
            (let (neg, r) = take_sign cs; (ds, r') = take_digits r in
             if ds = [] \<or> r' \<noteq> [] then None
             else Some (if neg then - int (digits_value ds) else int (digits_value ds)))
          else None)"

definition scale10 :: "real \<Rightarrow> int \<Rightarrow> real" where
  "scale10 x e = (if e \<ge> 0 then x * 10 ^ nat e else x / 10 ^ nat (- e))"

text \<open>
  \<^verbatim>\<open>float(s)\<close> for a string: white space stripped, an optional sign, then \<^verbatim>\<open>inf\<close>,
  \<^verbatim>\<open>infinity\<close> or \<^verbatim>\<open>nan\<close> in any case, or digits with at most one point and an optional
  exponent. \<open>None\<close> stands for the \<^verbatim>\<open>ValueError\<close>.
\<close>

definition float_of_str :: "string \<Rightarrow> pyfloat option" where
  "float_of_str s =
     (let (neg, body) = take_sign (strip s); low = upper body in
      if low = ''INF'' \<or> low = ''INFINITY'' then Some (if neg then NegInf else PosInf)
      else if low = ''NAN'' then Some NaN
      else
        (let (ip, r1) = take_digits body;
             dot = (r1 \<noteq> [] \<and> hd r1 = CHR ''.'');
             (fp, r2) = (if dot then take_digits (tl r1) else ([], r1))
         in if ip = [] \<and> fp = [] then None
            else (case take_exponent r2 of
                    None \<Rightarrow> None
                  | Some e \<Rightarrow>
                      (let m = scale10 (real (digits_value (ip @ fp))) (e - int (length fp))
                       in Some (Finite (if neg then - m else m))))))"

text \<open>
  \<^verbatim>\<open>int(s)\<close> for a string: white space stripped, an optional sign and one digitpart.
\<close>

definition int_of_str :: "string \<Rightarrow> int option" where
  "int_of_str s =
     (let (neg, body) = take_sign (strip s); (ds, r) = take_digits body in
      if ds = [] \<or> r \<noteq> [] then None
      else Some (if neg then - int (digits_value ds) else int (digits_value ds)))"

text \<open>
  \<^verbatim>\<open>to_float\<close> (lines 57 to 61): \<^verbatim>\<open>float(v)\<close>, and \<open>None\<close> for any exception.
  \<^verbatim>\<open>float(None)\<close> raises \<^verbatim>\<open>TypeError\<close>.
\<close>

fun to_float :: "pyval \<Rightarrow> pyfloat option" where
  "to_float PNone = None"
| "to_float (PBool b) = Some (Finite (if b then 1 else 0))"
| "to_float (PNum x) = Some x"
| "to_float (PStr s) = float_of_str s"

text \<open>
  \<^verbatim>\<open>str(v)\<close>. The text Python prints for a number is made of digits, signs, a point and
  the letters of \<^verbatim>\<open>e\<close>, \<^verbatim>\<open>inf\<close> and \<^verbatim>\<open>nan\<close>; the program only ever searches such a text
  for \<^verbatim>\<open>TD\<close>, \<^verbatim>\<open>TS\<close> and \<^verbatim>\<open>HU\<close>, so the model prints every number as \<^verbatim>\<open>0\<close>.
\<close>

fun py_str :: "pyval \<Rightarrow> string" where
  "py_str PNone = ''None''"
| "py_str (PBool b) = (if b then ''True'' else ''False'')"
| "py_str (PNum x) = ''0''"
| "py_str (PStr s) = s"

section \<open>The coordinate parser\<close>

text \<open>\<^verbatim>\<open>parse_lat\<close> (lines 63 to 71) and \<^verbatim>\<open>parse_lon\<close> (lines 73 to 81).\<close>

definition parse_lat :: "pyval \<Rightarrow> pyfloat option" where
  "parse_lat v =
     (case v of
        PNone \<Rightarrow> None
      | PBool b \<Rightarrow> to_float v
      | PNum x \<Rightarrow> to_float v
      | PStr _ \<Rightarrow>
          (let s = upper (strip (py_str v)) in
           if endswith s ''N'' then to_float (PStr (butlast s))
           else if endswith s ''S'' then
             (case to_float (PStr (butlast s)) of None \<Rightarrow> None | Some val \<Rightarrow> Some (f_neg val))
           else to_float (PStr s)))"

definition parse_lon :: "pyval \<Rightarrow> pyfloat option" where
  "parse_lon v =
     (case v of
        PNone \<Rightarrow> None
      | PBool b \<Rightarrow> to_float v
      | PNum x \<Rightarrow> to_float v
      | PStr _ \<Rightarrow>
          (let s = upper (strip (py_str v)) in
           if endswith s ''E'' then to_float (PStr (butlast s))
           else if endswith s ''W'' then
             (case to_float (PStr (butlast s)) of None \<Rightarrow> None | Some val \<Rightarrow> Some (f_neg val))
           else to_float (PStr s)))"

section \<open>Tropical cyclones: the radius estimator\<close>

text \<open>
  \<^verbatim>\<open>int(v)\<close>: a float is truncated towards zero, nan raises \<^verbatim>\<open>ValueError\<close> and an
  infinity \<^verbatim>\<open>OverflowError\<close>; a string must be an integer literal.
\<close>

definition trunc_real :: "real \<Rightarrow> int" where
  "trunc_real x = (if x \<ge> 0 then \<lfloor>x\<rfloor> else \<lceil>x\<rceil>)"

fun py_int :: "pyval \<Rightarrow> py_error + int" where
  "py_int PNone = Inl TypeError"
| "py_int (PBool b) = Inr (if b then 1 else 0)"
| "py_int (PNum (Finite x)) = Inr (trunc_real x)"
| "py_int (PNum NaN) = Inl ValueError"
| "py_int (PNum _) = Inl OverflowError"
| "py_int (PStr s) = (case int_of_str s of None \<Rightarrow> Inl ValueError | Some i \<Rightarrow> Inr i)"

text \<open>
  The three parts of \<^verbatim>\<open>estimate_tc_radius_km\<close> (lines 458 to 485). Line 460: the
  wind, read from the first true value in the chain of \<^verbatim>\<open>or\<close> over the four keys.
\<close>

definition tc_wind :: "pydict \<Rightarrow> pyfloat option" where
  "tc_wind storm =
     to_float (py_or (py_or (py_or (dict_get storm ''wind'') (dict_get storm ''maxWind''))
                            (dict_get storm ''intensity''))
                     (dict_get storm ''sustainedWind''))"

text \<open>Lines 462 to 470: the bands of the wind in knots.\<close>

definition tc_wind_band :: "pyfloat \<Rightarrow> pyfloat" where
  "tc_wind_band wind =
     (let kts = py_max (Finite 0) wind in
      if f_lt kts (Finite 34) then Finite 100
      else if f_lt kts (Finite 50) then Finite 150
      else if f_lt kts (Finite 64) then Finite 200
      else if f_lt kts (Finite 83) then Finite 250
      else if f_lt kts (Finite 96) then Finite 300
      else if f_lt kts (Finite 113) then Finite 350
      else if f_lt kts (Finite 137) then Finite 420
      else Finite 500)"

text \<open>
  Lines 472 to 478: the Saffir-Simpson code. \<open>None\<close> when the key is missing or \<^verbatim>\<open>int\<close>
  raises; a code outside the table gives the default of \<^verbatim>\<open>dict.get\<close>, 200.
\<close>

definition tc_category_table :: "(int \<times> real) list" where
  "tc_category_table = [(0, 250), (1, 250), (2, 300), (3, 350), (4, 420), (5, 500)]"

definition tc_category :: "pydict \<Rightarrow> pyfloat option" where
  "tc_category storm =
     (case dict_get storm ''sshs'' of
        PNone \<Rightarrow> None
      | sshs \<Rightarrow>
          (case py_int sshs of
             Inl _ \<Rightarrow> None
           | Inr c \<Rightarrow> Some (Finite (case map_of tc_category_table c of
                                        Some r \<Rightarrow> r | None \<Rightarrow> 200))))"

text \<open>Lines 480 to 485: the status text and the constant \<^verbatim>\<open>STORM_RADIUS_KM\<close>.\<close>

definition STORM_RADIUS_KM :: real where
  "STORM_RADIUS_KM = 200"

definition tc_status :: "pydict \<Rightarrow> string" where
  "tc_status storm =
     upper (py_str (py_or (py_or (py_or (py_or (dict_get storm ''type'')
                                                 (dict_get storm ''stormType''))
                                          (dict_get storm ''class''))
                                   (dict_get storm ''status''))
                           (PStr '''')))"

definition tc_status_radius :: "string \<Rightarrow> pyfloat" where
  "tc_status_radius status =
     (if contains status ''TD'' then Finite 120
      else if contains status ''TS'' then Finite 200
      else if contains status ''HU'' \<or> contains status ''HURRICANE'' then Finite 320
      else Finite STORM_RADIUS_KM)"

definition estimate_tc_radius_km :: "pydict \<Rightarrow> pyfloat" where
  "estimate_tc_radius_km storm =
     (case tc_wind storm of
        Some wind \<Rightarrow> tc_wind_band wind
      | None \<Rightarrow>
          (case tc_category storm of
             Some r \<Rightarrow> r
           | None \<Rightarrow> tc_status_radius (tc_status storm)))"

text \<open>Lines 487 to 489: the estimate, clamped.\<close>

definition tc_radius_km :: "pydict \<Rightarrow> pyfloat" where
  "tc_radius_km storm = py_max (Finite 60) (py_min (Finite 600) (estimate_tc_radius_km storm))"






section \<open>What is drawn\<close>

text \<open>
  \<^verbatim>\<open>build_map\<close> (lines 140 to 597) adds to seven layers, in this order on the map: radar,
  volcanoes, alerts, severe reports, earthquakes, wildfires, cyclones. An event of the
  model is one call that draws on a layer: the tile layer of the radar, a faded circle
  (\<^verbatim>\<open>add_faded_circle\<close>, by latitude, longitude and radius in metres), a circle marker
  (by latitude, longitude and tooltip) or the polygon of an alert (by event name and
  coordinates). Colours, opacities and step counts are constants of the rendering and
  are left out; what the rendering library does with a call is not part of the model.
\<close>

datatype category = Radar | Volcano | Alert | SevereReport | Earthquake | Wildfire | Cyclone

datatype coords = CVal pyval | CList "coords list"

datatype drawing =
    TileLayer string
  | FadedCircle "pyfloat option" "pyfloat option" pyfloat
  | CircleMarker "pyfloat option" "pyfloat option" pyval
  | GeoJson pyval coords

type_synonym event = "category \<times> drawing"

text \<open>
  The outcome of a fetch (\<^verbatim>\<open>fetch_json\<close>, \<^verbatim>\<open>fetch_text\<close>, \<^verbatim>\<open>SESSION.get\<close>): an exception
  of the HTTP client, or the decoded payload.
\<close>

datatype fetch_error = NetworkError | HTTPError nat | DecodeError

type_synonym 'a fetched = "fetch_error + 'a"

text \<open>
  A loop over records inside one \<^verbatim>\<open>try\<close>: what was drawn before the first exception
  stays drawn, the records after it are not reached.
\<close>

fun run_records :: "('r \<Rightarrow> py_error + 'e list) \<Rightarrow> 'r list \<Rightarrow> 'e list \<times> py_error option" where
  "run_records f [] = ([], None)"
| "run_records f (r # rs) =
     (case f r of
        Inl e \<Rightarrow> ([], Some e)
      | Inr es \<Rightarrow> (let (rest, err) = run_records f rs in (es @ rest, err)))"

section \<open>The seven sources\<close>

subsection \<open>Radar (lines 158 to 179)\<close>

text \<open>
  The index document: the host when the key is present, and the paths of the past and
  nowcast frames (\<open>None\<close> for a frame without a path).
\<close>

record radar_maps =
  rm_host :: "string option"
  rm_past :: "string option list"
  rm_nowcast :: "string option list"

definition radar_section :: "radar_maps fetched \<Rightarrow> event list" where
  "radar_section fetched =
     (case fetched of
        Inl _ \<Rightarrow> []
      | Inr maps \<Rightarrow>
          (let host = (case rm_host maps of
                         None \<Rightarrow> ''https://tilecache.rainviewer.com'' | Some h \<Rightarrow> h);
               frames = rm_past maps @ rm_nowcast maps
           in if frames = [] then []
              else (case last frames of
                      None \<Rightarrow> []
                    | Some path \<Rightarrow>
                        if path = [] then []
                        else [(Radar, TileLayer (host @ path @
                                ''/256/{z}/{x}/{y}/2/1_1.png?color=3&smooth=1&noclutter=1''))])))"

subsection \<open>Volcanoes (lines 182 to 212)\<close>

text \<open>
  An open event: its title and, for each geometry, the value under \<^verbatim>\<open>coordinates\<close>
  (\<open>None\<close> when missing). The coordinates are converted and drawn; they are not
  checked for \<^verbatim>\<open>None\<close>.
\<close>

record eonet_event =
  ev_title :: pyval
  ev_geometry :: "pyval list option list"

definition volcano_geo :: "pyval \<Rightarrow> pyval list option \<Rightarrow> drawing list" where
  "volcano_geo title coords =
     (case coords of
        None \<Rightarrow> []
      | Some cs \<Rightarrow>
          if cs = [] \<or> length cs < 2 then []
          else (let lon = to_float (cs ! 0); lat = to_float (cs ! 1)
                in [FadedCircle lat lon (Finite 20000), CircleMarker lat lon title]))"

definition volcano_event :: "eonet_event \<Rightarrow> drawing list" where
  "volcano_event ev =
     (let title = py_or (ev_title ev) (PStr ''Volcano Activity'')
      in concat (map (volcano_geo title) (ev_geometry ev)))"

definition volcano_section :: "eonet_event list fetched \<Rightarrow> event list" where
  "volcano_section fetched =
     (case fetched of
        Inl _ \<Rightarrow> []
      | Inr evs \<Rightarrow> map (Pair Volcano) (concat (map volcano_event evs)))"

subsection \<open>Alerts (lines 215 to 277)\<close>

text \<open>\<^verbatim>\<open>iter_lonlat\<close> (lines 86 to 92): the coordinate lists a geometry holds.\<close>

fun is_number :: "coords \<Rightarrow> bool" where
  "is_number (CVal (PNum x)) = True"
| "is_number (CVal (PBool b)) = True"
| "is_number _ = False"

fun iter_lonlat :: "coords \<Rightarrow> coords list list" where
  "iter_lonlat (CVal v) = []"
| "iter_lonlat (CList cs) =
     (if length cs \<ge> 2 \<and> list_all is_number (take 2 cs) then [cs]
      else concat (map iter_lonlat cs))"

fun coord_float :: "coords \<Rightarrow> pyfloat option" where
  "coord_float (CVal v) = to_float v"
| "coord_float (CList cs) = None"

text \<open>\<^verbatim>\<open>min\<close> and \<^verbatim>\<open>max\<close> of a list that is not empty.\<close>

definition py_min_list :: "pyfloat list \<Rightarrow> pyfloat" where
  "py_min_list xs = foldl py_min (hd xs) (tl xs)"

definition py_max_list :: "pyfloat list \<Rightarrow> pyfloat" where
  "py_max_list xs = foldl py_max (hd xs) (tl xs)"

text \<open>
  \<^verbatim>\<open>geom_bounds\<close> (lines 95 to 102), of the value under \<^verbatim>\<open>coordinates\<close> of a geometry
  (the empty list when the key is missing).
\<close>

definition geom_bounds :: "coords \<Rightarrow> (pyfloat \<times> pyfloat \<times> pyfloat \<times> pyfloat) option" where
  "geom_bounds coordinates =
     (let cs = iter_lonlat coordinates in
      if cs = [] then None
      else (let lons = List.map_filter (\<lambda>c. if c = [] then None else coord_float (c ! 0)) cs;
                lats = List.map_filter (\<lambda>c. if c = [] then None else coord_float (c ! 1)) cs
            in if lons = [] \<or> lats = [] then None
               else Some (py_min_list lats, py_max_list lats, py_min_list lons, py_max_list lons)))"

definition include_events :: "string list" where
  "include_events =
     [''Tornado Warning'', ''Tornado Watch'', ''Severe Thunderstorm Warning'',
      ''Severe Thunderstorm Watch'', ''Flash Flood Warning'', ''Flood Warning'',
      ''Hurricane Warning'', ''Hurricane Watch'', ''Tropical Storm Warning'',
      ''Winter Storm Warning'', ''Blizzard Warning'', ''Red Flag Warning'',
      ''Excessive Heat Warning'', ''High Wind Warning'', ''Special Marine Warning'',
      ''Tsunami Warning'', ''Tsunami Advisory'', ''Tsunami Watch'']"

text \<open>
  A feature: the value under \<^verbatim>\<open>event\<close> and the coordinates of its geometry (\<open>None\<close>
  for a geometry that is missing, null or empty).
\<close>

record nws_feature =
  nf_event :: pyval
  nf_geometry :: "coords option"

definition nws_feature_draw :: "nws_feature \<Rightarrow> drawing list" where
  "nws_feature_draw f =
     (case nf_geometry f of
        None \<Rightarrow> []
      | Some g \<Rightarrow>
          (case nf_event f of
             PStr name \<Rightarrow>
               if \<not> List.member include_events name then []
               else if geom_bounds g = None then []
               else [GeoJson (PStr name) g]
           | _ \<Rightarrow> []))"

text \<open>
  The response of the one URL tried: its status code and the features of its body. Any
  status other than 200, like an exception, ends in \<^verbatim>\<open>All NWS attempts failed\<close>.
\<close>

definition nws_section :: "(nat \<times> nws_feature list) fetched \<Rightarrow> event list" where
  "nws_section fetched =
     (case fetched of
        Inl _ \<Rightarrow> []
      | Inr (status_code, feats) \<Rightarrow>
          if status_code = 200 then map (Pair Alert) (concat (map nws_feature_draw feats))
          else [])"

subsection \<open>Severe reports (lines 280 to 340)\<close>

definition fetch_spc_csv :: "string list list fetched \<Rightarrow> string list list" where
  "fetch_spc_csv fetched = (case fetched of Inl _ \<Rightarrow> [] | Inr rows \<Rightarrow> rows)"

definition spc_row :: "real \<Rightarrow> string list \<Rightarrow> drawing list" where
  "spc_row radius row =
     (if length row < 8 then []
      else (let lat = to_float (PStr (row ! (length row - 2)));
                lon = to_float (PStr (row ! (length row - 1)))
            in if lat = None \<or> lon = None then []
               else [FadedCircle lat lon (Finite radius)]))"

definition spc_kind :: "real \<Rightarrow> string list list fetched list \<Rightarrow> drawing list" where
  "spc_kind radius urls =
     (let rows = concat (map fetch_spc_csv urls)
      in concat (map (spc_row radius) (drop 1 rows)))"

record spc_feeds =
  spc_tornado :: "string list list fetched list"
  spc_wind :: "string list list fetched list"
  spc_hail :: "string list list fetched list"

definition spc_section :: "spc_feeds \<Rightarrow> event list" where
  "spc_section feeds =
     map (Pair SevereReport)
       (spc_kind 8000 (spc_tornado feeds) @ spc_kind 6000 (spc_wind feeds)
        @ spc_kind 5000 (spc_hail feeds))"

subsection \<open>Earthquakes (lines 343 to 402)\<close>

text \<open>
  A feature: the coordinates of its geometry (the empty list when missing) and the value
  under \<^verbatim>\<open>mag\<close>. The results of the two feeds are appended as they complete
  (\<^verbatim>\<open>as_completed\<close>), so the section takes them in completion order.
\<close>

record quake_feature =
  q_coords :: "pyval list"
  q_mag :: pyval

definition quake_feature_draw :: "quake_feature \<Rightarrow> py_error + drawing list" where
  "quake_feature_draw feature =
     (let coords = q_coords feature in
      if length coords < 2 then Inr []
      else (let lat = to_float (coords ! 1); lon = to_float (coords ! 0) in
            case q_mag feature of
              PNone \<Rightarrow> Inr []
            | mag \<Rightarrow>
                (case to_float mag of
                   None \<Rightarrow> Inr []
                 | Some M \<Rightarrow>
                     (let depth_km = (if length coords \<ge> 3 then to_float (coords ! 2) else None)
                      in and_then (seismic_radius_km M depth_km) (\<lambda>radius_km.
                           Inr [FadedCircle lat lon (f_mul radius_km (Finite 1000))])))))"

definition usgs_results :: "quake_feature list fetched list \<Rightarrow> quake_feature list list" where
  "usgs_results completed =
     List.map_filter (\<lambda>r. case r of Inl _ \<Rightarrow> None | Inr features \<Rightarrow> Some features) completed"

definition usgs_section :: "quake_feature list fetched list \<Rightarrow> event list" where
  "usgs_section completed =
     map (Pair Earthquake) (fst (run_records quake_feature_draw (concat (usgs_results completed))))"

subsection \<open>Wildfires (lines 405 to 443)\<close>

definition fire_row_draw :: "pydict \<Rightarrow> py_error + drawing list" where
  "fire_row_draw row =
     (let lat = to_float (dict_get row ''latitude'');
          lon = to_float (dict_get row ''longitude'');
          scan_deg = to_float (dict_get row ''scan'');
          track_deg = to_float (dict_get row ''track'')
      in and_then (fire_radius_m scan_deg track_deg lat) (\<lambda>radius_m.
           Inr [FadedCircle lat lon radius_m]))"

definition firms_section :: "pydict list fetched \<Rightarrow> event list" where
  "firms_section fetched =
     (case fetched of
        Inl _ \<Rightarrow> []
      | Inr rows \<Rightarrow> map (Pair Wildfire) (fst (run_records fire_row_draw rows)))"

subsection \<open>Cyclones (lines 446 to 503)\<close>

text \<open>The storm list document: the lists under its two alternative keys.\<close>

record nhc_doc =
  currentStorms :: "pydict list"
  activeStorms :: "pydict list"

definition storm_draw :: "pydict \<Rightarrow> drawing list" where
  "storm_draw s =
     (let lat = parse_lat (dict_get s ''lat''); lon = parse_lon (dict_get s ''lon'')
      in if lat = None \<or> lon = None then []
         else [FadedCircle lat lon (f_mul (tc_radius_km s) (Finite 1000))])"

definition nhc_section :: "nhc_doc fetched \<Rightarrow> event list" where
  "nhc_section fetched =
     (case fetched of
        Inl _ \<Rightarrow> []
      | Inr data \<Rightarrow>
          (let storms = (if currentStorms data \<noteq> [] then currentStorms data
                         else activeStorms data)
           in map (Pair Cyclone) (concat (map storm_draw storms))))"

section \<open>The whole map\<close>

text \<open>
  What the seven fetches of one run returned: for the severe reports the two URLs of each
  kind in order, for the earthquakes the two feeds in the order in which they completed.
\<close>

record feeds =
  feed_radar :: "radar_maps fetched"
  feed_eonet :: "eonet_event list fetched"
  feed_nws :: "(nat \<times> nws_feature list) fetched"
  feed_spc :: spc_feeds
  feed_usgs :: "quake_feature list fetched list"
  feed_firms :: "pydict list fetched"
  feed_nhc :: "nhc_doc fetched"

text \<open>
  The dictionary \<^verbatim>\<open>counts\<close> (line 154). It is local to \<^verbatim>\<open>build_map\<close> and not returned;
  the model returns it to say what it holds. The key \<^verbatim>\<open>spc_lsr\<close> is added by the severe
  report section. A count that is assigned after a loop keeps its initial 0 when the
  loop raised.
\<close>

record counts =
  count_radar :: nat
  count_nws :: nat
  count_earthquakes :: nat
  count_fires :: nat
  count_storms :: nat
  count_spc_lsr :: "nat option"

definition count_after_loop :: "'e list \<times> py_error option \<Rightarrow> nat" where
  "count_after_loop r = (case snd r of None \<Rightarrow> length (fst r) | Some _ \<Rightarrow> 0)"

record map_result =
  mr_events :: "event list"
  mr_counts :: counts

definition build_map :: "feeds \<Rightarrow> map_result" where
  "build_map F =
     \<lparr>mr_events =
        radar_section (feed_radar F) @ volcano_section (feed_eonet F)
        @ nws_section (feed_nws F) @ spc_section (feed_spc F)
        @ usgs_section (feed_usgs F) @ firms_section (feed_firms F)
        @ nhc_section (feed_nhc F),
      mr_counts =
        \<lparr>count_radar = length (radar_section (feed_radar F)),
         count_nws = length (nws_section (feed_nws F)),
         count_earthquakes =
           count_after_loop
             (run_records quake_feature_draw (concat (usgs_results (feed_usgs F)))),
         count_fires =
           (case feed_firms F of
              Inl _ \<Rightarrow> 0 | Inr rows \<Rightarrow> count_after_loop (run_records fire_row_draw rows)),
         count_storms = length (nhc_section (feed_nhc F)),
         count_spc_lsr = Some (length (spc_section (feed_spc F)))\<rparr>\<rparr>"

text \<open>The feeds of a run in which every request of one source fails.\<close>

definition fail_source :: "category \<Rightarrow> fetch_error \<Rightarrow> feeds \<Rightarrow> feeds" where
  "fail_source c e F =
     (case c of
        Radar \<Rightarrow> F\<lparr>feed_radar := Inl e\<rparr>
      | Volcano \<Rightarrow> F\<lparr>feed_eonet := Inl e\<rparr>
      | Alert \<Rightarrow> F\<lparr>feed_nws := Inl e\<rparr>
      | SevereReport \<Rightarrow>
          F\<lparr>feed_spc := \<lparr>spc_tornado = map (\<lambda>_. Inl e) (spc_tornado (feed_spc F)),
                         spc_wind = map (\<lambda>_. Inl e) (spc_wind (feed_spc F)),
                         spc_hail = map (\<lambda>_. Inl e) (spc_hail (feed_spc F))\<rparr>\<rparr>
      | Earthquake \<Rightarrow> F\<lparr>feed_usgs := map (\<lambda>_. Inl e) (feed_usgs F)\<rparr>
      | Wildfire \<Rightarrow> F\<lparr>feed_firms := Inl e\<rparr>
      | Cyclone \<Rightarrow> F\<lparr>feed_nhc := Inl e\<rparr>)"

text \<open>The feeds of a run in which every request fails, with an error for each source.\<close>

definition failed_feeds :: "(category \<Rightarrow> fetch_error) \<Rightarrow> feeds" where
  "failed_feeds err =
     \<lparr>feed_radar = Inl (err Radar),
      feed_eonet = Inl (err Volcano),
      feed_nws = Inl (err Alert),
      feed_spc = \<lparr>spc_tornado = [Inl (err SevereReport), Inl (err SevereReport)],
                  spc_wind = [Inl (err SevereReport), Inl (err SevereReport)],
                  spc_hail = [Inl (err SevereReport), Inl (err SevereReport)]\<rparr>,
      feed_usgs = [Inl (err Earthquake), Inl (err Earthquake)],
      feed_firms = Inl (err Wildfire),
      feed_nhc = Inl (err Cyclone)\<rparr>"


section \<open>Properties of the earthquake radius\<close>





















section \<open>Properties of the wildfire radius\<close>

lemma py_max_Finite: "py_max (Finite a) (Finite b) = Finite (max a b)"
  by (simp add: py_max_def f_gt_def max_def)

lemma py_min_Finite: "py_min (Finite a) (Finite b) = Finite (min a b)"
  by (simp add: py_min_def min_def)

lemma sqrt_floor_step:
  "and_then (f_div (Finite (max 1 p)) (Finite pi)) (\<lambda>q. and_then (math_sqrt q) f) =
     f (Finite (sqrt (max 1 p / pi)))"
proof -
  have "\<not> max 1 p / pi < 0" by (simp add: not_less)
  then show ?thesis by (simp add: and_then_def)
qed

lemma fire_radius_finite:
  "fire_radius_m (Some (Finite s)) (Some (Finite t)) (Some (Finite l)) =
     Inr (Finite (max 150 (min 2000
       (sqrt (max 1 ((s * 111320 * max 0 (cos (l * pi / 180))) * (t * 111320)) / pi)))))"
proof -
  have "fire_radius_m (Some (Finite s)) (Some (Finite t)) (Some (Finite l)) =
      and_then (f_div (Finite (max 1 ((s * 111320 * max 0 (cos (l * pi / 180))) * (t * 111320))))
                  (Finite pi))
        (\<lambda>q. and_then (math_sqrt q)
           (\<lambda>radius_m. Inr (py_max (Finite 150) (py_min (Finite 2000) radius_m))))"
    by (simp add: fire_radius_m_def radians_def and_then_def py_max_Finite Let_def
          del: f_div.simps math_sqrt.simps)
  then show ?thesis
    by (simp only: sqrt_floor_step py_max_Finite py_min_Finite)
qed

lemma fire_radius_missing:
  "scan = None \<or> track = None \<or> lat = None \<Longrightarrow> fire_radius_m scan track lat = Inr (Finite 500)"
  by (auto simp: fire_radius_m_def split: option.splits)

lemma sqrt_inv_pi_small: "sqrt (1 / pi) \<le> 150"
proof -
  have "1 / pi \<le> 1" using pi_ge_two by simp
  then have "sqrt (1 / pi) \<le> sqrt 1" by (simp only: real_sqrt_le_iff)
  also have "sqrt 1 \<le> (150::real)" by simp
  finally show ?thesis .
qed

lemma clamp_floor_irrelevant:
  assumes "p \<le> 1"
  shows "max 150 (min 2000 (sqrt (max 1 p / pi))) = max 150 (min 2000 (sqrt (p / pi)))"
proof -
  have "sqrt (p / pi) \<le> sqrt (1 / pi)"
    using assms by (simp add: divide_right_mono)
  then have a: "sqrt (p / pi) \<le> 150" using sqrt_inv_pi_small by linarith
  have b: "max 1 p = 1" using assms by simp
  show ?thesis unfolding b using a sqrt_inv_pi_small by (simp add: max_def min_def)
qed

lemma fire_radius_agrees:
  assumes "0 \<le> cos (l * pi / 180) \<and> 0 \<le> (s * 111320 * cos (l * pi / 180)) * (t * 111320)"
  shows "fire_radius_m (Some (Finite s)) (Some (Finite t)) (Some (Finite l)) =
           Inr (Finite (spec_fire_radius_m s t l))"
proof -
  let ?c = "cos (l * pi / 180)"
  let ?p = "(s * 111320 * ?c) * (t * 111320)"
  let ?q = "(s * 111320 * max 0 ?c) * (t * 111320)"
  have "max 150 (min 2000 (sqrt (max 1 ?q / pi))) = max 150 (min 2000 (sqrt (?p / pi)))"
  proof (cases "0 \<le> ?c")
    case True
    then have e: "?q = ?p" by (simp add: max_def)
    show ?thesis
    proof (cases "?p \<le> 1")
      case True
      then show ?thesis unfolding e by (rule clamp_floor_irrelevant)
    next
      case False
      then show ?thesis unfolding e by (simp add: max_def)
    qed
  next
    case False
    then have neg: "?c < 0" by simp
    with assms have st: "0 \<le> s * t" by simp
    have q0: "?q = 0" using neg by (simp add: max_def)
    have "?p = (s * t) * ?c * 111320 * 111320" by simp
    moreover have "(s * t) * ?c \<le> 0" using st neg by (simp add: mult_nonneg_nonpos)
    ultimately have p0: "?p \<le> 0" by (simp add: mult_nonpos_nonneg)
    have "max 150 (min 2000 (sqrt (max 1 ?q / pi))) = max 150 (min 2000 (sqrt (?q / pi)))"
      by (rule clamp_floor_irrelevant) (simp add: q0)
    also have "\<dots> = 150" unfolding q0 by simp
    also have "150 = max 150 (min 2000 (sqrt (?p / pi)))"
    proof -
      have "?p / pi \<le> 0" using p0 by (simp add: divide_nonpos_pos)
      then have "sqrt (?p / pi) \<le> 0" by (simp only: real_sqrt_le_0_iff)
      then show ?thesis by linarith
    qed
    finally show ?thesis .
  qed
  then show ?thesis
    unfolding fire_radius_finite spec_fire_radius_m_def by simp
qed

lemma fire_counterexample_values:
  "fire_radius_m (Some (Finite (-1))) (Some (Finite 1)) (Some (Finite 180)) = Inr (Finite 150)"
  "spec_fire_radius_m (-1) 1 180 = 2000"
proof -
  have c: "cos (180 * pi / 180) = -1" by simp
  show "fire_radius_m (Some (Finite (-1))) (Some (Finite 1)) (Some (Finite 180)) = Inr (Finite 150)"
    unfolding fire_radius_finite c using sqrt_inv_pi_small by (simp add: max_def min_def)
  have "(2000::real)\<^sup>2 * pi < 2000\<^sup>2 * 4" using pi_less_4 by simp
  also have "\<dots> \<le> 111320 * 111320" by (simp add: power2_eq_square)
  finally have "(2000::real)\<^sup>2 < 111320 * 111320 / pi" by (simp add: pos_less_divide_eq)
  then have "2000 < sqrt (111320 * 111320 / pi)" by (rule real_less_rsqrt)
  then show "spec_fire_radius_m (-1) 1 180 = 2000"
    unfolding spec_fire_radius_m_def c by (simp add: max_def min_def)
qed

lemma fire_radius_floor:
  assumes "cos (l * pi / 180) < 0 \<or> (s * 111320 * cos (l * pi / 180)) * (t * 111320) < 0"
  shows "fire_radius_m (Some (Finite s)) (Some (Finite t)) (Some (Finite l)) = Inr (Finite 150)"
proof -
  let ?c = "cos (l * pi / 180)"
  let ?q = "(s * 111320 * max 0 ?c) * (t * 111320)"
  have "?q \<le> 1"
  proof (cases "?c < 0")
    case True
    then show ?thesis by (simp add: max_def)
  next
    case False
    then have m: "max 0 ?c = ?c" by simp
    from False assms have "(s * 111320 * ?c) * (t * 111320) < 0" by blast
    then show ?thesis unfolding m by linarith
  qed
  then have "max 1 ?q = 1" by simp
  then have "sqrt (max 1 ?q / pi) \<le> 150" using sqrt_inv_pi_small by simp
  then have "max 150 (min 2000 (sqrt (max 1 ?q / pi))) = 150" by simp
  then show ?thesis unfolding fire_radius_finite by simp
qed

text \<open>
  Claim C5, as the code has it. With finite scan, track and latitude the radius in metres
  is \<open>sqrt (max 1 (width * height) / pi)\<close> clamped into the interval from 150 to 2000,
  where the width uses the cosine of the latitude floored at 0. This is the formula of the
  specification whenever the cosine and the product under the root are not negative, and
  150 in every other case. When scan, track or latitude is missing the radius is 500.
\<close>

theorem fire_radius_amended:
  "fire_radius_m (Some (Finite s)) (Some (Finite t)) (Some (Finite l)) =
     Inr (Finite (max 150 (min 2000
       (sqrt (max 1 ((s * 111320 * max 0 (cos (l * pi / 180))) * (t * 111320)) / pi)))))
   \<and> (0 \<le> cos (l * pi / 180) \<and> 0 \<le> (s * 111320 * cos (l * pi / 180)) * (t * 111320) \<longrightarrow>
        fire_radius_m (Some (Finite s)) (Some (Finite t)) (Some (Finite l)) =
          Inr (Finite (spec_fire_radius_m s t l)))
   \<and> (cos (l * pi / 180) < 0 \<or> (s * 111320 * cos (l * pi / 180)) * (t * 111320) < 0 \<longrightarrow>
        fire_radius_m (Some (Finite s)) (Some (Finite t)) (Some (Finite l)) = Inr (Finite 150))
   \<and> (scan = None \<or> track = None \<or> lat = None \<longrightarrow>
        fire_radius_m scan track lat = Inr (Finite 500))"
  using fire_radius_finite [of s t l] fire_radius_agrees [of l s t] fire_radius_floor [of l s t]
    fire_radius_missing [of scan track lat]
  by blast

theorem fire_radius_amended_witness:
  "fire_radius_m (Some (Finite 1)) (Some (Finite 1)) (Some (Finite 0)) =
     Inr (Finite (spec_fire_radius_m 1 1 0))
   \<and> fire_radius_m (Some (Finite (- 1))) (Some (Finite 1)) (Some (Finite 180)) = Inr (Finite 150)
   \<and> fire_radius_m None (Some (Finite 1)) (Some (Finite 0)) = Inr (Finite 500)"
proof -
  have a: "0 \<le> cos (0 * pi / 180) \<and> 0 \<le> (1 * 111320 * cos (0 * pi / 180)) * (1 * 111320)"
    by simp
  have b: "cos (180 * pi / 180) < 0 \<or> (- 1 * 111320 * cos (180 * pi / 180)) * (1 * 111320) < 0"
    by simp
  have c: "None = None \<or> Some (Finite 1) = None \<or> Some (Finite 0) = None"
    by simp
  show ?thesis
    using fire_radius_amended [of 1 1 0 None "Some (Finite 1)" "Some (Finite 0)"]
      fire_radius_amended [of "- 1" 1 180 None None None] a b c
    by blast
qed

text \<open>
  The claim as the specification words it fails at latitude 180 with scan -1 and track 1:
  the cosine is -1, the code floors it at 0 and draws 150 metres, the unfloored formula
  gives 2000.
\<close>

theorem fire_radius_spec_counterexample:
  "fire_radius_m (Some (Finite (- 1))) (Some (Finite 1)) (Some (Finite 180)) = Inr (Finite 150)
   \<and> spec_fire_radius_m (- 1) 1 180 = 2000
   \<and> fire_radius_m (Some (Finite (- 1))) (Some (Finite 1)) (Some (Finite 180)) \<noteq>
       Inr (Finite (spec_fire_radius_m (- 1) 1 180))"
  using fire_counterexample_values by simp

section \<open>Properties of the cyclone radius\<close>

















section \<open>Properties of the coordinate parser\<close>

















section \<open>Properties of the adapters and of the map\<close>

lemma radar_tagged: "\<exists>xs. radar_section f = map (Pair Radar) xs"
proof (cases f)
  case (Inl e)
  then show ?thesis by (simp add: radar_section_def)
next
  case (Inr maps)
  let ?frames = "rm_past maps @ rm_nowcast maps"
  show ?thesis
  proof (cases "?frames = []")
    case True
    with Inr have "radar_section f = map (Pair Radar) []"
      by (simp add: radar_section_def Let_def)
    then show ?thesis by blast
  next
    case False
    show ?thesis
    proof (cases "last ?frames")
      case None
      with Inr False have "radar_section f = map (Pair Radar) []"
        by (simp add: radar_section_def Let_def)
      then show ?thesis by blast
    next
      case (Some path)
      with Inr False have "radar_section f = map (Pair Radar) [] \<or>
          (\<exists>u. radar_section f = map (Pair Radar) [TileLayer u])"
        by (simp add: radar_section_def Let_def)
      then show ?thesis by blast
    qed
  qed
qed

lemma volcano_tagged: "\<exists>xs. volcano_section f = map (Pair Volcano) xs"
proof (cases f)
  case (Inl e)
  then show ?thesis by (simp add: volcano_section_def)
next
  case (Inr evs)
  then have "volcano_section f = map (Pair Volcano) (concat (map volcano_event evs))"
    by (simp add: volcano_section_def)
  then show ?thesis by blast
qed

lemma nws_tagged: "\<exists>xs. nws_section f = map (Pair Alert) xs"
proof (cases f)
  case (Inl e)
  then show ?thesis by (simp add: nws_section_def)
next
  case (Inr p)
  obtain st feats where "p = (st, feats)" by (cases p)
  with Inr have "nws_section f = map (Pair Alert) (concat (map nws_feature_draw feats))
      \<or> nws_section f = map (Pair Alert) []"
    by (simp add: nws_section_def)
  then show ?thesis by blast
qed

lemma spc_tagged: "\<exists>xs. spc_section f = map (Pair SevereReport) xs"
  unfolding spc_section_def by blast

lemma usgs_tagged: "\<exists>xs. usgs_section f = map (Pair Earthquake) xs"
  unfolding usgs_section_def by blast

lemma firms_tagged: "\<exists>xs. firms_section f = map (Pair Wildfire) xs"
proof (cases f)
  case (Inl e)
  then show ?thesis by (simp add: firms_section_def)
next
  case (Inr rows)
  then have "firms_section f = map (Pair Wildfire) (fst (run_records fire_row_draw rows))"
    by (simp add: firms_section_def)
  then show ?thesis by blast
qed

lemma nhc_tagged: "\<exists>xs. nhc_section f = map (Pair Cyclone) xs"
proof (cases f)
  case (Inl e)
  then show ?thesis by (simp add: nhc_section_def)
next
  case (Inr d)
  then show ?thesis unfolding nhc_section_def Let_def by (simp only: sum.case) blast
qed

lemma filter_tagged_eq:
  "filter (\<lambda>ev. fst ev = c) (map (Pair d) xs) = (if d = c then map (Pair d) xs else [])"
  by (induction xs) auto

lemma filter_tagged_neq:
  "filter (\<lambda>ev. fst ev \<noteq> c) (map (Pair d) xs) = (if d = c then [] else map (Pair d) xs)"
  by (induction xs) auto

lemma tagged_filters:
  assumes "\<exists>xs. sec = map (Pair d) xs"
  shows "filter (\<lambda>ev. fst ev = c) sec = (if d = c then sec else [])"
    and "filter (\<lambda>ev. fst ev \<noteq> c) sec = (if d = c then [] else sec)"
proof -
  from assms obtain xs where sec: "sec = map (Pair d) xs" by blast
  show "filter (\<lambda>ev. fst ev = c) sec = (if d = c then sec else [])"
    unfolding sec by (rule filter_tagged_eq)
  show "filter (\<lambda>ev. fst ev \<noteq> c) sec = (if d = c then [] else sec)"
    unfolding sec by (rule filter_tagged_neq)
qed

lemmas section_filters =
  tagged_filters [OF radar_tagged] tagged_filters [OF volcano_tagged]
  tagged_filters [OF nws_tagged] tagged_filters [OF spc_tagged]
  tagged_filters [OF usgs_tagged] tagged_filters [OF firms_tagged]
  tagged_filters [OF nhc_tagged]

lemma spc_kind_failed: "spc_kind r (map (\<lambda>_. Inl e) us) = []"
  by (induction us) (simp_all add: spc_kind_def fetch_spc_csv_def)

lemma spc_section_failed:
  "spc_section \<lparr>spc_tornado = map (\<lambda>_. Inl e) a, spc_wind = map (\<lambda>_. Inl e) b,
                 spc_hail = map (\<lambda>_. Inl e) c\<rparr> = []"
  by (simp add: spc_section_def spc_kind_failed)

lemma usgs_results_failed: "usgs_results (map (\<lambda>_. Inl e) us) = []"
  by (induction us) (simp_all add: usgs_results_def List.map_filter_simps)

lemma usgs_section_failed: "usgs_section (map (\<lambda>_. Inl e) us) = []"
  by (simp add: usgs_section_def usgs_results_failed)

lemma failed_sections:
  "radar_section (Inl e) = []" "volcano_section (Inl e) = []" "nws_section (Inl e) = []"
  "firms_section (Inl e) = []" "nhc_section (Inl e) = []"
  by (simp_all add: radar_section_def volcano_section_def nws_section_def firms_section_def
        nhc_section_def)

lemma build_map_events:
  "mr_events (build_map F) =
     radar_section (feed_radar F) @ volcano_section (feed_eonet F)
     @ nws_section (feed_nws F) @ spc_section (feed_spc F)
     @ usgs_section (feed_usgs F) @ firms_section (feed_firms F)
     @ nhc_section (feed_nhc F)"
  by (simp add: build_map_def)

lemma failed_source_own:
  "filter (\<lambda>ev. fst ev = c) (mr_events (build_map (fail_source c e F))) = []"
  by (cases c)
    (simp_all add: build_map_events fail_source_def section_filters failed_sections
      spc_section_failed usgs_section_failed)

lemma failed_source_others:
  "filter (\<lambda>ev. fst ev \<noteq> c) (mr_events (build_map (fail_source c e F))) =
     filter (\<lambda>ev. fst ev \<noteq> c) (mr_events (build_map F))"
  by (cases c)
    (simp_all add: build_map_events fail_source_def section_filters failed_sections
      spc_section_failed usgs_section_failed)

lemma all_failed_result:
  "build_map (failed_feeds err) =
     \<lparr>mr_events = [],
      mr_counts = \<lparr>count_radar = 0, count_nws = 0, count_earthquakes = 0, count_fires = 0,
                    count_storms = 0, count_spc_lsr = Some 0\<rparr>\<rparr>"
  by (simp add: build_map_def failed_feeds_def failed_sections spc_section_def spc_kind_def
        fetch_spc_csv_def usgs_section_def usgs_results_def List.map_filter_simps
        count_after_loop_def)

text \<open>
  Claim C7, as the code has it. When every request of one source fails, the map holds no
  event of that source and exactly the events of the other sources that it would hold
  otherwise. When every request of every source fails, the run still ends with a map, an
  empty one, and the counts are all zero, whatever the errors were: the dictionary of
  counts holds numbers of events only, no number of attempts and no kind of failure.
\<close>

theorem source_failure_isolated:
  "filter (\<lambda>ev. fst ev = c) (mr_events (build_map (fail_source c e F))) = []
   \<and> filter (\<lambda>ev. fst ev \<noteq> c) (mr_events (build_map (fail_source c e F))) =
       filter (\<lambda>ev. fst ev \<noteq> c) (mr_events (build_map F))
   \<and> build_map (failed_feeds err) =
       \<lparr>mr_events = [],
        mr_counts = \<lparr>count_radar = 0, count_nws = 0, count_earthquakes = 0, count_fires = 0,
                      count_storms = 0, count_spc_lsr = Some 0\<rparr>\<rparr>"
  using failed_source_own [of c e F] failed_source_others [of c e F] all_failed_result [of err]
  by blast

text \<open>
  The claim as the specification words it fails on the statistics: two runs in which
  every source fails, one with network errors and one with HTTP status 503, end in the
  same result, so nothing in it tells the kind of failure.
\<close>

theorem failure_kind_not_recorded:
  "build_map (failed_feeds (\<lambda>_. NetworkError)) = build_map (failed_feeds (\<lambda>_. HTTPError 503))
   \<and> NetworkError \<noteq> HTTPError 503"
  by (simp add: all_failed_result)























end
